theory Spec2Isabelle
  imports Main
begin

section \<open>Strings\<close>

text \<open>
  The service is the class \<open>AppStatusService\<close> of \<open>services/app-status-service.ts\<close>; the
  line numbers below are lines of that file. Its strings are modelled as
  \<^typ>\<open>string\<close>, holding the UTF-8 bytes of the text: an ASCII literal of the source is
  the same literal here, and a literal with Korean text or an emoji is the list of its
  bytes, with the code points noted beside it. Concatenation (template literals) and
  \<open>===\<close> on strings are concatenation and equality of the byte lists.
\<close>

definition none_text :: string where
  \<comment> \<open>line 160, shown when createdDate is absent ("none"): U+C5C6 U+C74C\<close>
  "none_text =
     [CHR 0xEC, CHR 0x97, CHR 0x86, CHR 0xEC, CHR 0x9D, CHR 0x8C]"

definition title_both_changed :: string where
  \<comment> \<open>line 170, after app.name (" version and status have changed!"):
     U+0020 U+BC84 U+C804 U+ACFC U+0020 U+C0C1 U+D0DC U+AC00 U+0020 U+BCC0 U+ACBD U+B418 U+C5C8
     U+C2B5 U+B2C8 U+B2E4 U+0021\<close>
  "title_both_changed =
     [CHR 0x20, CHR 0xEB, CHR 0xB2, CHR 0x84, CHR 0xEC, CHR 0xA0, CHR 0x84, CHR 0xEA, CHR 0xB3,
      CHR 0xBC, CHR 0x20, CHR 0xEC, CHR 0x83, CHR 0x81, CHR 0xED, CHR 0x83, CHR 0x9C, CHR 0xEA,
      CHR 0xB0, CHR 0x80, CHR 0x20, CHR 0xEB, CHR 0xB3, CHR 0x80, CHR 0xEA, CHR 0xB2, CHR 0xBD,
      CHR 0xEB, CHR 0x90, CHR 0x98, CHR 0xEC, CHR 0x97, CHR 0x88, CHR 0xEC, CHR 0x8A, CHR 0xB5,
      CHR 0xEB, CHR 0x8B, CHR 0x88, CHR 0xEB, CHR 0x8B, CHR 0xA4, CHR 0x21]"

definition title_version_changed :: string where
  \<comment> \<open>line 172, after app.name (" version has changed!"):
     U+0020 U+BC84 U+C804 U+C774 U+0020 U+BCC0 U+ACBD U+B418 U+C5C8 U+C2B5 U+B2C8 U+B2E4
     U+0021\<close>
  "title_version_changed =
     [CHR 0x20, CHR 0xEB, CHR 0xB2, CHR 0x84, CHR 0xEC, CHR 0xA0, CHR 0x84, CHR 0xEC, CHR 0x9D,
      CHR 0xB4, CHR 0x20, CHR 0xEB, CHR 0xB3, CHR 0x80, CHR 0xEA, CHR 0xB2, CHR 0xBD, CHR 0xEB,
      CHR 0x90, CHR 0x98, CHR 0xEC, CHR 0x97, CHR 0x88, CHR 0xEC, CHR 0x8A, CHR 0xB5, CHR 0xEB,
      CHR 0x8B, CHR 0x88, CHR 0xEB, CHR 0x8B, CHR 0xA4, CHR 0x21]"

definition title_state_changed :: string where
  \<comment> \<open>line 174, after app.name (" status has changed!"):
     U+0020 U+C0C1 U+D0DC U+AC00 U+0020 U+BCC0 U+ACBD U+B418 U+C5C8 U+C2B5 U+B2C8 U+B2E4
     U+0021\<close>
  "title_state_changed =
     [CHR 0x20, CHR 0xEC, CHR 0x83, CHR 0x81, CHR 0xED, CHR 0x83, CHR 0x9C, CHR 0xEA, CHR 0xB0,
      CHR 0x80, CHR 0x20, CHR 0xEB, CHR 0xB3, CHR 0x80, CHR 0xEA, CHR 0xB2, CHR 0xBD, CHR 0xEB,
      CHR 0x90, CHR 0x98, CHR 0xEC, CHR 0x97, CHR 0x88, CHR 0xEC, CHR 0x8A, CHR 0xB5, CHR 0xEB,
      CHR 0x8B, CHR 0x88, CHR 0xEB, CHR 0x8B, CHR 0xA4, CHR 0x21]"

definition label_current_state :: string where
  \<comment> \<open>line 192 ("current status"): U+D604 U+C7AC U+0020 U+C0C1 U+D0DC\<close>
  "label_current_state =
     [CHR 0xED, CHR 0x98, CHR 0x84, CHR 0xEC, CHR 0x9E, CHR 0xAC, CHR 0x20, CHR 0xEC, CHR 0x83,
      CHR 0x81, CHR 0xED, CHR 0x83, CHR 0x9C]"

definition label_current_version :: string where
  \<comment> \<open>line 199 ("current version"): U+D604 U+C7AC U+0020 U+BC84 U+C804\<close>
  "label_current_version =
     [CHR 0xED, CHR 0x98, CHR 0x84, CHR 0xEC, CHR 0x9E, CHR 0xAC, CHR 0x20, CHR 0xEB, CHR 0xB2,
      CHR 0x84, CHR 0xEC, CHR 0xA0, CHR 0x84]"

definition label_release_type :: string where
  \<comment> \<open>line 204 ("version release type"):
     U+BC84 U+C804 U+0020 U+CD9C U+C2DC U+0020 U+D0C0 U+C785\<close>
  "label_release_type =
     [CHR 0xEB, CHR 0xB2, CHR 0x84, CHR 0xEC, CHR 0xA0, CHR 0x84, CHR 0x20, CHR 0xEC, CHR 0xB6,
      CHR 0x9C, CHR 0xEC, CHR 0x8B, CHR 0x9C, CHR 0x20, CHR 0xED, CHR 0x83, CHR 0x80, CHR 0xEC,
      CHR 0x9E, CHR 0x85]"

definition label_previous_version :: string where
  \<comment> \<open>line 213 ("previous version"): U+C774 U+C804 U+0020 U+BC84 U+C804\<close>
  "label_previous_version =
     [CHR 0xEC, CHR 0x9D, CHR 0xB4, CHR 0xEC, CHR 0xA0, CHR 0x84, CHR 0x20, CHR 0xEB, CHR 0xB2,
      CHR 0x84, CHR 0xEC, CHR 0xA0, CHR 0x84]"

definition label_submitted :: string where
  \<comment> \<open>lines 218 and 225 ("submission time"):
     U+C81C U+CD9C U+0020 U+C77C U+C2DC\<close>
  "label_submitted =
     [CHR 0xEC, CHR 0xA0, CHR 0x9C, CHR 0xEC, CHR 0xB6, CHR 0x9C, CHR 0x20, CHR 0xEC, CHR 0x9D,
      CHR 0xBC, CHR 0xEC, CHR 0x8B, CHR 0x9C]"

definition msg_no_versions :: string where
  \<comment> \<open>line 129 ("app version information not found"):
     U+C571 U+0020 U+BC84 U+C804 U+0020 U+C815 U+BCF4 U+B97C U+0020 U+CC3E U+C744 U+0020 U+C218
     U+0020 U+C5C6 U+C2B5 U+B2C8 U+B2E4 U+002E\<close>
  "msg_no_versions =
     [CHR 0xEC, CHR 0x95, CHR 0xB1, CHR 0x20, CHR 0xEB, CHR 0xB2, CHR 0x84, CHR 0xEC, CHR 0xA0,
      CHR 0x84, CHR 0x20, CHR 0xEC, CHR 0xA0, CHR 0x95, CHR 0xEB, CHR 0xB3, CHR 0xB4, CHR 0xEB,
      CHR 0xA5, CHR 0xBC, CHR 0x20, CHR 0xEC, CHR 0xB0, CHR 0xBE, CHR 0xEC, CHR 0x9D, CHR 0x84,
      CHR 0x20, CHR 0xEC, CHR 0x88, CHR 0x98, CHR 0x20, CHR 0xEC, CHR 0x97, CHR 0x86, CHR 0xEC,
      CHR 0x8A, CHR 0xB5, CHR 0xEB, CHR 0x8B, CHR 0x88, CHR 0xEB, CHR 0x8B, CHR 0xA4, CHR 0x2E]"

definition msg_no_ios_versions :: string where
  \<comment> \<open>line 136 ("iOS app version information not found"):
     U+0069 U+004F U+0053 U+0020 U+C571 U+0020 U+BC84 U+C804 U+0020 U+C815 U+BCF4 U+B97C U+0020
     U+CC3E U+C744 U+0020 U+C218 U+0020 U+C5C6 U+C2B5 U+B2C8 U+B2E4 U+002E\<close>
  "msg_no_ios_versions =
     [CHR 0x69, CHR 0x4F, CHR 0x53, CHR 0x20, CHR 0xEC, CHR 0x95, CHR 0xB1, CHR 0x20, CHR 0xEB,
      CHR 0xB2, CHR 0x84, CHR 0xEC, CHR 0xA0, CHR 0x84, CHR 0x20, CHR 0xEC, CHR 0xA0, CHR 0x95,
      CHR 0xEB, CHR 0xB3, CHR 0xB4, CHR 0xEB, CHR 0xA5, CHR 0xBC, CHR 0x20, CHR 0xEC, CHR 0xB0,
      CHR 0xBE, CHR 0xEC, CHR 0x9D, CHR 0x84, CHR 0x20, CHR 0xEC, CHR 0x88, CHR 0x98, CHR 0x20,
      CHR 0xEC, CHR 0x97, CHR 0x86, CHR 0xEC, CHR 0x8A, CHR 0xB5, CHR 0xEB, CHR 0x8B, CHR 0x88,
      CHR 0xEB, CHR 0x8B, CHR 0xA4, CHR 0x2E]"

section \<open>Lookups on the lifecycle state and the release type\<close>

text \<open>
  Each \<open>switch\<close> of the source is an \<open>if\<close> chain in the order of its \<open>case\<close> labels,
  the \<open>default\<close> last. The emoji returned by \<open>getStateEmoji\<close>, as code points:
\<^verbatim>\<open>
    ACCEPTED                         U+2705
    DEVELOPER_REJECTED               U+1F6AB
    IN_REVIEW                        U+1F50D
    INVALID_BINARY                   U+26A0 U+FE0F
    METADATA_REJECTED                U+1F4DD U+274C
    PENDING_APPLE_RELEASE            U+23F3
    PENDING_DEVELOPER_RELEASE        U+1F468 U+200D U+1F4BB
    PREPARE_FOR_SUBMISSION           U+1F4E6
    PROCESSING_FOR_DISTRIBUTION      U+2699 U+FE0F
    READY_FOR_DISTRIBUTION           U+1F389
    READY_FOR_REVIEW                 U+1F4E4
    REJECTED                         U+274C
    REPLACED_WITH_NEW_VERSION        U+1F504
    WAITING_FOR_EXPORT_COMPLIANCE    U+1F4CB
    WAITING_FOR_REVIEW               U+23F3
    default                          U+2753
\<close>
\<close>

definition getStateEmoji :: "string \<Rightarrow> string" where
  "getStateEmoji state =
    (if state = ''ACCEPTED'' then
       [CHR 0xE2, CHR 0x9C, CHR 0x85]
     else if state = ''DEVELOPER_REJECTED'' then
       [CHR 0xF0, CHR 0x9F, CHR 0x9A, CHR 0xAB]
     else if state = ''IN_REVIEW'' then
       [CHR 0xF0, CHR 0x9F, CHR 0x94, CHR 0x8D]
     else if state = ''INVALID_BINARY'' then
       [CHR 0xE2, CHR 0x9A, CHR 0xA0, CHR 0xEF, CHR 0xB8, CHR 0x8F]
     else if state = ''METADATA_REJECTED'' then
       [CHR 0xF0, CHR 0x9F, CHR 0x93, CHR 0x9D, CHR 0xE2, CHR 0x9D, CHR 0x8C]
     else if state = ''PENDING_APPLE_RELEASE'' then
       [CHR 0xE2, CHR 0x8F, CHR 0xB3]
     else if state = ''PENDING_DEVELOPER_RELEASE'' then
       [CHR 0xF0, CHR 0x9F, CHR 0x91, CHR 0xA8, CHR 0xE2, CHR 0x80, CHR 0x8D, CHR 0xF0, CHR 0x9F,
        CHR 0x92, CHR 0xBB]
     else if state = ''PREPARE_FOR_SUBMISSION'' then
       [CHR 0xF0, CHR 0x9F, CHR 0x93, CHR 0xA6]
     else if state = ''PROCESSING_FOR_DISTRIBUTION'' then
       [CHR 0xE2, CHR 0x9A, CHR 0x99, CHR 0xEF, CHR 0xB8, CHR 0x8F]
     else if state = ''READY_FOR_DISTRIBUTION'' then
       [CHR 0xF0, CHR 0x9F, CHR 0x8E, CHR 0x89]
     else if state = ''READY_FOR_REVIEW'' then
       [CHR 0xF0, CHR 0x9F, CHR 0x93, CHR 0xA4]
     else if state = ''REJECTED'' then
       [CHR 0xE2, CHR 0x9D, CHR 0x8C]
     else if state = ''REPLACED_WITH_NEW_VERSION'' then
       [CHR 0xF0, CHR 0x9F, CHR 0x94, CHR 0x84]
     else if state = ''WAITING_FOR_EXPORT_COMPLIANCE'' then
       [CHR 0xF0, CHR 0x9F, CHR 0x93, CHR 0x8B]
     else if state = ''WAITING_FOR_REVIEW'' then
       [CHR 0xE2, CHR 0x8F, CHR 0xB3]
     else
       [CHR 0xE2, CHR 0x9D, CHR 0x93])"

text \<open>The labels of \<open>getStateMessage\<close> are Korean phrases; the default one reads
  "unknown state".\<close>

definition getStateMessage :: "string \<Rightarrow> string" where
  "getStateMessage state =
    (if state = ''ACCEPTED'' then
       [CHR 0xEC, CHR 0x8B, CHR 0xAC, CHR 0xEC, CHR 0x82, CHR 0xAC, CHR 0x20, CHR 0xEC, CHR 0x8A,
        CHR 0xB9, CHR 0xEC, CHR 0x9D, CHR 0xB8]
     else if state = ''DEVELOPER_REJECTED'' then
       [CHR 0xEA, CHR 0xB0, CHR 0x9C, CHR 0xEB, CHR 0xB0, CHR 0x9C, CHR 0xEC, CHR 0x9E, CHR 0x90,
        CHR 0xEC, CHR 0x97, CHR 0x90, CHR 0x20, CHR 0xEC, CHR 0x9D, CHR 0x98, CHR 0xED, CHR 0x95,
        CHR 0x9C, CHR 0x20, CHR 0xEC, CHR 0x8B, CHR 0xAC, CHR 0xEC, CHR 0x82, CHR 0xAC, CHR 0x20,
        CHR 0xEC, CHR 0xB7, CHR 0xA8, CHR 0xEC, CHR 0x86, CHR 0x8C]
     else if state = ''IN_REVIEW'' then
       [CHR 0xEC, CHR 0x8B, CHR 0xAC, CHR 0xEC, CHR 0x82, CHR 0xAC, CHR 0x20, CHR 0xEC, CHR 0xA7,
        CHR 0x84, CHR 0xED, CHR 0x96, CHR 0x89, CHR 0x20, CHR 0xEC, CHR 0xA4, CHR 0x91]
     else if state = ''INVALID_BINARY'' then
       [CHR 0xEB, CHR 0xB0, CHR 0x94, CHR 0xEC, CHR 0x9D, CHR 0xB4, CHR 0xEB, CHR 0x84, CHR 0x88,
        CHR 0xEB, CHR 0xA6, CHR 0xAC, CHR 0x20, CHR 0xEB, CHR 0xAC, CHR 0xB4, CHR 0xED, CHR 0x9A,
        CHR 0xA8]
     else if state = ''METADATA_REJECTED'' then
       [CHR 0xEB, CHR 0xA9, CHR 0x94, CHR 0xED, CHR 0x83, CHR 0x80, CHR 0xEB, CHR 0x8D, CHR 0xB0,
        CHR 0xEC, CHR 0x9D, CHR 0xB4, CHR 0xED, CHR 0x84, CHR 0xB0, CHR 0x20, CHR 0xEA, CHR 0xB1,
        CHR 0xB0, CHR 0xEC, CHR 0xA0, CHR 0x88]
     else if state = ''PENDING_APPLE_RELEASE'' then
       [CHR 0xEC, CHR 0x95, CHR 0xA0, CHR 0xED, CHR 0x94, CHR 0x8C, CHR 0x20, CHR 0xEC, CHR 0xB6,
        CHR 0x9C, CHR 0xEC, CHR 0x8B, CHR 0x9C, CHR 0x20, CHR 0xEB, CHR 0x8C, CHR 0x80, CHR 0xEA,
        CHR 0xB8, CHR 0xB0, CHR 0x20, CHR 0xEC, CHR 0xA4, CHR 0x91]
     else if state = ''PENDING_DEVELOPER_RELEASE'' then
       [CHR 0xEC, CHR 0x8B, CHR 0xAC, CHR 0xEC, CHR 0x82, CHR 0xAC, CHR 0x20, CHR 0xEC, CHR 0x8A,
        CHR 0xB9, CHR 0xEC, CHR 0x9D, CHR 0xB8, CHR 0x2C, CHR 0x20, CHR 0xEC, CHR 0xB6, CHR 0x9C,
        CHR 0xEC, CHR 0x8B, CHR 0x9C, CHR 0x20, CHR 0xEB, CHR 0x8C, CHR 0x80, CHR 0xEA, CHR 0xB8,
        CHR 0xB0, CHR 0x20, CHR 0xEC, CHR 0xA4, CHR 0x91]
     else if state = ''PREPARE_FOR_SUBMISSION'' then
       [CHR 0xEC, CHR 0xA0, CHR 0x9C, CHR 0xEC, CHR 0xB6, CHR 0x9C, CHR 0x20, CHR 0xEC, CHR 0xA4,
        CHR 0x80, CHR 0xEB, CHR 0xB9, CHR 0x84, CHR 0x20, CHR 0xEC, CHR 0xA4, CHR 0x91]
     else if state = ''PROCESSING_FOR_DISTRIBUTION'' then
       [CHR 0xEB, CHR 0xB0, CHR 0xB0, CHR 0xED, CHR 0x8F, CHR 0xAC, CHR 0x20, CHR 0xEC, CHR 0xB2,
        CHR 0x98, CHR 0xEB, CHR 0xA6, CHR 0xAC, CHR 0x20, CHR 0xEC, CHR 0xA4, CHR 0x91]
     else if state = ''READY_FOR_DISTRIBUTION'' then
       [CHR 0xEB, CHR 0xB0, CHR 0xB0, CHR 0xED, CHR 0x8F, CHR 0xAC, CHR 0x20, CHR 0xEC, CHR 0x99,
        CHR 0x84, CHR 0xEB, CHR 0xA3, CHR 0x8C]
     else if state = ''READY_FOR_REVIEW'' then
       [CHR 0xEC, CHR 0x8B, CHR 0xAC, CHR 0xEC, CHR 0x82, CHR 0xAC, CHR 0x20, CHR 0xEC, CHR 0xA4,
        CHR 0x80, CHR 0xEB, CHR 0xB9, CHR 0x84, CHR 0x20, CHR 0xEC, CHR 0x99, CHR 0x84, CHR 0xEB,
        CHR 0xA3, CHR 0x8C]
     else if state = ''REJECTED'' then
       [CHR 0xEC, CHR 0x8B, CHR 0xAC, CHR 0xEC, CHR 0x82, CHR 0xAC, CHR 0x20, CHR 0xEA, CHR 0xB1,
        CHR 0xB0, CHR 0xEC, CHR 0xA0, CHR 0x88]
     else if state = ''REPLACED_WITH_NEW_VERSION'' then
       [CHR 0xEC, CHR 0x83, CHR 0x88, CHR 0x20, CHR 0xEB, CHR 0xB2, CHR 0x84, CHR 0xEC, CHR 0xA0,
        CHR 0x84, CHR 0xEC, CHR 0x9C, CHR 0xBC, CHR 0xEB, CHR 0xA1, CHR 0x9C, CHR 0x20, CHR 0xEB,
        CHR 0x8C, CHR 0x80, CHR 0xEC, CHR 0xB2, CHR 0xB4, CHR 0xEB, CHR 0x90, CHR 0xA8]
     else if state = ''WAITING_FOR_EXPORT_COMPLIANCE'' then
       [CHR 0xEC, CHR 0x88, CHR 0x98, CHR 0xEC, CHR 0xB6, CHR 0x9C, CHR 0x20, CHR 0xEA, CHR 0xB7,
        CHR 0x9C, CHR 0xEC, CHR 0xA0, CHR 0x95, CHR 0x20, CHR 0xEA, CHR 0xB2, CHR 0x80, CHR 0xED,
        CHR 0x86, CHR 0xA0, CHR 0x20, CHR 0xEB, CHR 0x8C, CHR 0x80, CHR 0xEA, CHR 0xB8, CHR 0xB0,
        CHR 0x20, CHR 0xEC, CHR 0xA4, CHR 0x91]
     else if state = ''WAITING_FOR_REVIEW'' then
       [CHR 0xEC, CHR 0x8B, CHR 0xAC, CHR 0xEC, CHR 0x82, CHR 0xAC, CHR 0x20, CHR 0xEB, CHR 0x8C,
        CHR 0x80, CHR 0xEA, CHR 0xB8, CHR 0xB0, CHR 0x20, CHR 0xEC, CHR 0xA4, CHR 0x91]
     else
       [CHR 0xEC, CHR 0x95, CHR 0x8C, CHR 0x20, CHR 0xEC, CHR 0x88, CHR 0x98, CHR 0x20, CHR 0xEC,
        CHR 0x97, CHR 0x86, CHR 0xEB, CHR 0x8A, CHR 0x94, CHR 0x20, CHR 0xEC, CHR 0x83, CHR 0x81,
        CHR 0xED, CHR 0x83, CHR 0x9C])"

definition getStateColor :: "string \<Rightarrow> nat" where
  "getStateColor state =
    (if state = ''ACCEPTED'' \<or>
         state = ''READY_FOR_DISTRIBUTION''
       then 0x36A64F
     else if state = ''DEVELOPER_REJECTED'' \<or>
         state = ''REJECTED'' \<or>
         state = ''INVALID_BINARY'' \<or>
         state = ''METADATA_REJECTED''
       then 0xDC3545
     else if state = ''IN_REVIEW'' \<or>
         state = ''WAITING_FOR_REVIEW'' \<or>
         state = ''WAITING_FOR_EXPORT_COMPLIANCE''
       then 0xFFC107
     else if state = ''PENDING_APPLE_RELEASE'' \<or>
         state = ''PENDING_DEVELOPER_RELEASE'' \<or>
         state = ''PROCESSING_FOR_DISTRIBUTION''
       then 0x0088CC
     else if state = ''PREPARE_FOR_SUBMISSION'' \<or>
         state = ''READY_FOR_REVIEW'' \<or>
         state = ''REPLACED_WITH_NEW_VERSION''
       then 0x6F42C1
     else 0x95A5A6)"

text \<open>The default branch of \<open>getReleaseTypeMessage\<close> is the template literal
  \<open>`${releaseType} ...`\<close>: the raw value, then a fixed suffix.\<close>

definition release_suffix :: string where
  \<comment> \<open>line 416, after releaseType (" release"): U+0020 U+BC30 U+D3EC\<close>
  "release_suffix =
     [CHR 0x20, CHR 0xEB, CHR 0xB0, CHR 0xB0, CHR 0xED, CHR 0x8F, CHR 0xAC]"

definition getReleaseTypeMessage :: "string \<Rightarrow> string" where
  "getReleaseTypeMessage releaseType =
    (if releaseType = ''MANUAL'' then
       [CHR 0xF0, CHR 0x9F, CHR 0x93, CHR 0xA4, CHR 0x20, CHR 0xEC, CHR 0x88, CHR 0x98, CHR 0xEB,
        CHR 0x8F, CHR 0x99, CHR 0x20, CHR 0xEB, CHR 0xB0, CHR 0xB0, CHR 0xED, CHR 0x8F,
        CHR 0xAC]
     else if releaseType = ''AFTER_APPROVAL'' then
       [CHR 0xF0, CHR 0x9F, CHR 0x9A, CHR 0x80, CHR 0x20, CHR 0xEC, CHR 0x8A, CHR 0xB9, CHR 0xEC,
        CHR 0x9D, CHR 0xB8, CHR 0x20, CHR 0xED, CHR 0x9B, CHR 0x84, CHR 0x20, CHR 0xEC, CHR 0x9E,
        CHR 0x90, CHR 0xEB, CHR 0x8F, CHR 0x99, CHR 0x20, CHR 0xEB, CHR 0xB0, CHR 0xB0, CHR 0xED,
        CHR 0x8F, CHR 0xAC]
     else if releaseType = ''SCHEDULED'' then
       [CHR 0xE2, CHR 0x8F, CHR 0xB0, CHR 0x20, CHR 0xEC, CHR 0x98, CHR 0x88, CHR 0xEC, CHR 0x95,
        CHR 0xBD, CHR 0x20, CHR 0xEB, CHR 0xB0, CHR 0xB0, CHR 0xED, CHR 0x8F, CHR 0xAC]
     else releaseType @ release_suffix)"

text \<open>The case labels of the three state lookups: the closed enumeration of lifecycle
  states the service knows.\<close>

definition known_states :: "string list" where
  "known_states =
     [''ACCEPTED'', ''DEVELOPER_REJECTED'', ''IN_REVIEW'', ''INVALID_BINARY'',
      ''METADATA_REJECTED'', ''PENDING_APPLE_RELEASE'', ''PENDING_DEVELOPER_RELEASE'',
      ''PREPARE_FOR_SUBMISSION'', ''PROCESSING_FOR_DISTRIBUTION'', ''READY_FOR_DISTRIBUTION'',
      ''READY_FOR_REVIEW'', ''REJECTED'', ''REPLACED_WITH_NEW_VERSION'',
      ''WAITING_FOR_EXPORT_COMPLIANCE'', ''WAITING_FOR_REVIEW'']"

section \<open>Data model\<close>

text \<open>
  The interfaces of the service, as records. \<open>AppStatus\<close> is the record that is compared
  and persisted; \<open>createdDate\<close> is optional in the source.
\<close>

record AppStatus =
  state :: string
  createdDate :: "string option"
  versionString :: string
  releaseType :: string

text \<open>\<open>StatusStorage\<close> is the index signature \<open>{ [appId: string]: AppStatus }\<close>. The type
  below holds the own entries of such an object: what \<open>JSON.parse\<close> creates from the
  file and what \<open>JSON.stringify\<close> writes back.\<close>

type_synonym StatusStorage = "string \<rightharpoonup> AppStatus"

record AppConfig =
  name :: string
  appId :: string
  webhookUrl :: string
  icon :: string

text \<open>
  Of \<open>AppStoreConnectResponse\<close> the model keeps what \<open>checkAppStatus\<close> reads. A version
  item carries its attributes and \<open>build_data_id\<close>, the value of the optional chain
  \<open>relationships?.build?.data?.id\<close> (\<open>None\<close> when a link of the chain is absent). An
  included item carries its type, its id and \<open>attributes.version\<close>. The source tests
  \<open>response.data.data\<close> for absence, so \<open>data\<close> is optional here.
\<close>

record VersionItem =
  platform :: string
  appVersionState :: string
  attr_createdDate :: "string option"
  attr_versionString :: string
  attr_releaseType :: string
  build_data_id :: "string option"

record IncludedItem =
  inc_type :: string
  inc_id :: string
  inc_version :: "string option"

record AppStoreConnectResponse =
  data :: "VersionItem list option"
  included :: "IncludedItem list option"

text \<open>The \<open>fields\<close> array of the source holds \<open>{title, value, short}\<close>; the payload maps
  it to \<open>{name, value, inline}\<close>. A value is a string or, for the previous version read
  from a value that has no \<open>versionString\<close>, \<open>undefined\<close> (\<open>None\<close>).\<close>

record Field =
  title :: string
  fvalue :: "string option"
  short :: bool

record EmbedField =
  field_name :: string
  field_value :: "string option"
  inline :: bool

record Embed =
  embed_title :: string
  color :: nat
  author_name :: string
  author_icon_url :: string
  footer_text :: string
  footer_icon_url :: string
  timestamp :: string
  url :: string
  embed_fields :: "EmbedField list"

record WebhookPayload =
  embeds :: "Embed list"

section \<open>Plain objects as dictionaries\<close>

text \<open>
  The status mapping is a plain JavaScript object whose prototype is \<open>Object.prototype\<close>,
  fresh from \<open>JSON.parse\<close> or from the literal \<open>{}\<close> at every load. The property names of
  \<open>Object.prototype\<close> (ECMAScript with its Annex B, as in Node):
\<close>

definition object_prototype_names :: "string list" where
  "object_prototype_names =
     [''constructor'', ''__defineGetter__'', ''__defineSetter__'', ''hasOwnProperty'',
      ''__lookupGetter__'', ''__lookupSetter__'', ''isPrototypeOf'', ''propertyIsEnumerable'',
      ''toString'', ''valueOf'', ''__proto__'', ''toLocaleString'']"

text \<open>
  The value of \<open>statuses[appId]\<close>: the own entry when there is one; otherwise, when the id
  names a member of \<open>Object.prototype\<close>, the inherited member (a function, or for
  \<open>__proto__\<close> the prototype object); otherwise \<open>undefined\<close>.
\<close>

datatype property = Undefined | Own AppStatus | Inherited

definition get_property :: "StatusStorage \<Rightarrow> string \<Rightarrow> property" where
  "get_property statuses key =
     (case statuses key of
        Some status \<Rightarrow> Own status
      | None \<Rightarrow> if key \<in> set object_prototype_names then Inherited else Undefined)"

text \<open>An inherited member is truthy and has neither a \<open>state\<close> nor a \<open>versionString\<close>
  property: reading them gives \<open>undefined\<close> (\<open>None\<close>).\<close>

definition truthy :: "property \<Rightarrow> bool" where
  "truthy p = (case p of Undefined \<Rightarrow> False | Own status \<Rightarrow> True | Inherited \<Rightarrow> True)"

definition state_of :: "property \<Rightarrow> string option" where
  "state_of p = (case p of Own status \<Rightarrow> Some (state status) | Undefined \<Rightarrow> None | Inherited \<Rightarrow> None)"

definition versionString_of :: "property \<Rightarrow> string option" where
  "versionString_of p =
     (case p of Own status \<Rightarrow> Some (versionString status) | Undefined \<Rightarrow> None
      | Inherited \<Rightarrow> None)"

text \<open>
  The assignment \<open>statuses[appId] = status\<close> of line 85 creates or overwrites the own
  entry, with one exception: for \<open>__proto__\<close> without an own entry the inherited setter
  runs, which replaces the prototype of the object and creates no entry.
\<close>

definition set_property :: "StatusStorage \<Rightarrow> string \<Rightarrow> AppStatus \<Rightarrow> StatusStorage" where
  "set_property statuses key status =
     (if key = ''__proto__'' \<and> statuses key = None then statuses
      else statuses(key \<mapsto> status))"

section \<open>Errors, the environment and the world\<close>

text \<open>What the service can catch: the failures of the file read, of \<open>JSON.parse\<close> and of
  the file write, the two \<open>throw new Error(...)\<close> of the source, a rejected HTTP request
  (with the response status when there is one) and a failure of \<open>jwt.sign\<close>.\<close>

datatype exn =
    ENOENT
  | SyntaxError
  | EACCES
  | Error string
  | AxiosError "nat option"
  | JwtError

text \<open>The lines \<open>console.error\<close> writes: from the catch of \<open>loadPreviousStatuses\<close>, from
  the catch of \<open>savePreviousStatus\<close>, from the credential check, and the two of the catch
  in the loop of \<open>checkAppStatus\<close>.\<close>

datatype log_entry =
    LoadError exn
  | SaveError exn
  | NoCredentials
  | CheckError string exn
  | Plain exn

text \<open>
  The text of the status file is modelled by what \<open>JSON.parse\<close> makes of it: either it
  raises (\<open>Unparsable\<close>: invalid content), or it returns a mapping. \<open>JSON.stringify\<close> of a
  mapping is the text that parses back to it.
\<close>

datatype file_text = Unparsable | Json StatusStorage

text \<open>
  The world the service acts on: the status file (\<open>None\<close> when it does not exist),
  whether the file system accepts a write to it, the lines written by \<open>console.error\<close>,
  and the POST requests issued with \<open>axios.post\<close>, each with its URL, in order.
\<close>

record world =
  statusFile :: "file_text option"
  writable :: bool
  console :: "log_entry list"
  requests :: "(string \<times> WebhookPayload) list"

text \<open>
  The collaborators of one run: whether the three credentials are in the process
  environment, the outcome of \<open>generateToken\<close>, the answers of \<open>axios.get\<close> (by URL and
  Authorization header) and \<open>axios.post\<close> (by URL and body), the date formatting of
  \<open>dayjs\<close> with the fixed format of line 159, and \<open>new Date().toISOString()\<close>.
\<close>

record env =
  credentials :: bool
  generateToken :: "exn + string"
  axios_get :: "string \<Rightarrow> string \<Rightarrow> exn + AppStoreConnectResponse"
  axios_post :: "string \<Rightarrow> WebhookPayload \<Rightarrow> exn + unit"
  dayjs_format :: "string \<Rightarrow> string"
  toISOString :: string

section \<open>The status store\<close>

definition console_error :: "log_entry \<Rightarrow> world \<Rightarrow> world" where
  "console_error l w = w\<lparr>console := console w @ [l]\<rparr>"

definition readFileSync :: "world \<Rightarrow> exn + file_text" where
  "readFileSync w = (case statusFile w of None \<Rightarrow> Inl ENOENT | Some t \<Rightarrow> Inr t)"

text \<open>\<open>writeFileSync\<close> replaces the text of the file (creating it), or raises when the
  file system refuses the write.\<close>

definition writeFileSync :: "file_text \<Rightarrow> world \<Rightarrow> exn + world" where
  "writeFileSync t w = (if writable w then Inr (w\<lparr>statusFile := Some t\<rparr>) else Inl EACCES)"

definition JSON_parse :: "file_text \<Rightarrow> exn + StatusStorage" where
  "JSON_parse t = (case t of Unparsable \<Rightarrow> Inl SyntaxError | Json m \<Rightarrow> Inr m)"

definition JSON_stringify :: "StatusStorage \<Rightarrow> file_text" where
  "JSON_stringify m = Json m"

text \<open>Lines 66 to 70. Nothing catches here: a refused write is raised to the caller of
  the constructor.\<close>

definition initializeStatusFile :: "world \<Rightarrow> exn + world" where
  "initializeStatusFile w =
     (case statusFile w of
        None \<Rightarrow> writeFileSync (JSON_stringify Map.empty) w
      | Some t \<Rightarrow> Inr w)"

text \<open>The constructor stores the application list and the path, and initializes the file.\<close>

definition AppStatusService :: "world \<Rightarrow> exn + world" where
  "AppStatusService w = initializeStatusFile w"

definition loadPreviousStatuses :: "world \<Rightarrow> StatusStorage \<times> world" where
  "loadPreviousStatuses w =
     (case readFileSync w of
        Inl error \<Rightarrow> (Map.empty, console_error (LoadError error) w)
      | Inr text \<Rightarrow>
          (case JSON_parse text of
             Inl error \<Rightarrow> (Map.empty, console_error (LoadError error) w)
           | Inr statuses \<Rightarrow> (statuses, w)))"

text \<open>Lines 82 to 90: the load, the assignment of line 85, the write, and the catch that
  logs a refused write.\<close>

definition savePreviousStatus :: "string \<Rightarrow> AppStatus \<Rightarrow> world \<Rightarrow> world" where
  "savePreviousStatus app_id status w =
     (case loadPreviousStatuses w of
        (currentStatuses, w1) \<Rightarrow>
          (case writeFileSync (JSON_stringify (set_property currentStatuses app_id status)) w1 of
             Inl error \<Rightarrow> console_error (SaveError error) w1
           | Inr w2 \<Rightarrow> w2))"

text \<open>Lines 92 to 104. \<open>!==\<close> compares the \<open>state\<close> and \<open>versionString\<close> read from the
  previous value, which may be \<open>undefined\<close>, with the strings of the current status.\<close>

definition hasStatusChanged :: "string \<Rightarrow> AppStatus \<Rightarrow> world \<Rightarrow> bool \<times> world" where
  "hasStatusChanged app_id currentStatus w =
     (case loadPreviousStatuses w of
        (previousStatuses, w1) \<Rightarrow>
          (let previousStatus = get_property previousStatuses app_id
           in if \<not> truthy previousStatus then (True, w1)
              else (state_of previousStatus \<noteq> Some (state currentStatus) \<or>
                    versionString_of previousStatus \<noteq> Some (versionString currentStatus),
                    w1)))"

text \<open>The record the file holds for an application id, if the file can be read back.\<close>

definition stored :: "world \<Rightarrow> string \<Rightarrow> AppStatus option" where
  "stored w app_id =
     (case statusFile w of
        Some (Json statuses) \<Rightarrow> statuses app_id
      | Some Unparsable \<Rightarrow> None
      | None \<Rightarrow> None)"

section \<open>Fetching the current status\<close>

text \<open>
  Lines 141 to 148: the build number is looked up only when the build id is truthy (a
  non-empty string) and \<open>included\<close> is present; it is \<open>attributes.version\<close> of the first
  included item of type \<open>builds\<close> with that id, and stays \<open>undefined\<close> (\<open>None\<close>) otherwise.
\<close>

definition buildNumberOf :: "VersionItem \<Rightarrow> AppStoreConnectResponse \<Rightarrow> string option" where
  "buildNumberOf latestVersion response =
     (case build_data_id latestVersion of
        None \<Rightarrow> None
      | Some buildId \<Rightarrow>
          if buildId = [] then None
          else
            (case included response of
               None \<Rightarrow> None
             | Some items \<Rightarrow>
                 (case find (\<lambda>item. inc_type item = ''builds'' \<and> inc_id item = buildId) items of
                    None \<Rightarrow> None
                  | Some buildInfo \<Rightarrow> inc_version buildInfo)))"

definition statusOf :: "VersionItem \<Rightarrow> AppStatus" where
  "statusOf latestVersion =
     \<lparr>state = appVersionState latestVersion,
      createdDate = attr_createdDate latestVersion,
      versionString = attr_versionString latestVersion,
      releaseType = attr_releaseType latestVersion\<rparr>"

text \<open>Lines 118 to 155, up to the construction of \<open>currentStatus\<close>: the token, the GET, the
  two checks that raise, the first iOS version and its build number.\<close>

definition fetchStatus :: "env \<Rightarrow> AppConfig \<Rightarrow> exn + (AppStatus \<times> string option)" where
  "fetchStatus e app =
     (case generateToken e of
        Inl error \<Rightarrow> Inl error
      | Inr token \<Rightarrow>
          (case axios_get e
                  (''https://api.appstoreconnect.apple.com/v1/apps/'' @ appId app @
                   ''/appStoreVersions?include=build'')
                  (''Bearer '' @ token) of
             Inl error \<Rightarrow> Inl error
           | Inr response \<Rightarrow>
               (case data response of
                  None \<Rightarrow> Inl (Error msg_no_versions)
                | Some [] \<Rightarrow> Inl (Error msg_no_versions)
                | Some items \<Rightarrow>
                    (case filter (\<lambda>item. platform item = ''IOS'') items of
                       [] \<Rightarrow> Inl (Error msg_no_ios_versions)
                     | latestVersion # rest \<Rightarrow>
                         Inr (statusOf latestVersion, buildNumberOf latestVersion response)))))"

section \<open>Composing the notification\<close>

definition submittedDate :: "env \<Rightarrow> AppStatus \<Rightarrow> string" where
  "submittedDate e currentStatus =
     (case createdDate currentStatus of
        None \<Rightarrow> none_text
      | Some d \<Rightarrow> if d = [] then none_text else dayjs_format e d)"

text \<open>Lines 163 to 165, on the value read at line 162: \<open>previousStatus && ...\<close> is falsy
  without a previous value, and \<open>!previousStatus || ...\<close> is true without one.\<close>

definition versionChanged :: "property \<Rightarrow> AppStatus \<Rightarrow> bool" where
  "versionChanged previousStatus currentStatus =
     (truthy previousStatus \<and>
      versionString_of previousStatus \<noteq> Some (versionString currentStatus))"

definition stateChanged :: "property \<Rightarrow> AppStatus \<Rightarrow> bool" where
  "stateChanged previousStatus currentStatus =
     (\<not> truthy previousStatus \<or> state_of previousStatus \<noteq> Some (state currentStatus))"

definition titleText :: "AppConfig \<Rightarrow> property \<Rightarrow> AppStatus \<Rightarrow> string" where
  "titleText app previousStatus currentStatus =
     (if versionChanged previousStatus currentStatus \<and> stateChanged previousStatus currentStatus
        then name app @ title_both_changed
      else if versionChanged previousStatus currentStatus
        then name app @ title_version_changed
      else name app @ title_state_changed)"

text \<open>How a template literal prints a string that may be \<open>undefined\<close>.\<close>

definition template :: "string option \<Rightarrow> string" where
  "template v = (case v of None \<Rightarrow> ''undefined'' | Some s \<Rightarrow> s)"

text \<open>Lines 177 to 188: the value of the current-version field.\<close>

definition displayVersion :: "AppStatus \<Rightarrow> string option \<Rightarrow> string" where
  "displayVersion currentStatus buildNumber =
     (if state currentStatus = ''READY_FOR_DISTRIBUTION'' \<or>
         state currentStatus = ''PENDING_DEVELOPER_RELEASE'' \<or>
         state currentStatus = ''WAITING_FOR_REVIEW'' \<or>
         state currentStatus = ''IN_REVIEW''
        then versionString currentStatus @ '' ('' @ template buildNumber @ '')''
      else versionString currentStatus)"

text \<open>Lines 190 to 229: three fields, then the two pushes. The value of the
  previous-version field is \<open>previousStatus.versionString\<close>.\<close>

definition composeFields :: "env \<Rightarrow> property \<Rightarrow> AppStatus \<Rightarrow> string option \<Rightarrow> Field list" where
  "composeFields e previousStatus currentStatus buildNumber =
     (let fields3 =
        [\<lparr>title = label_current_state,
          fvalue = Some (getStateEmoji (state currentStatus) @ '' '' @
                         getStateMessage (state currentStatus)),
          short = True\<rparr>,
         \<lparr>title = label_current_version,
          fvalue = Some (displayVersion currentStatus buildNumber),
          short = True\<rparr>,
         \<lparr>title = label_release_type,
          fvalue = Some (getReleaseTypeMessage (releaseType currentStatus)),
          short = True\<rparr>];
          submitted =
            \<lparr>title = label_submitted, fvalue = Some (submittedDate e currentStatus),
             short = True\<rparr>
      in if truthy previousStatus \<and> versionChanged previousStatus currentStatus
           then fields3 @
             [\<lparr>title = label_previous_version, fvalue = versionString_of previousStatus,
               short = True\<rparr>,
              submitted]
         else fields3 @ [submitted])"

text \<open>Lines 231 to 254. \<open>field.short || false\<close> is \<open>field.short\<close> for a boolean.\<close>

definition webhookPayload ::
  "env \<Rightarrow> AppConfig \<Rightarrow> property \<Rightarrow> AppStatus \<Rightarrow> string option \<Rightarrow> WebhookPayload" where
  "webhookPayload e app previousStatus currentStatus buildNumber =
     \<lparr>embeds =
        [\<lparr>embed_title = titleText app previousStatus currentStatus,
          color = getStateColor (state currentStatus),
          author_name = name app,
          author_icon_url = icon app,
          footer_text = ''App Store Connect'',
          footer_icon_url =
            ''https://developer.apple.com/assets/elements/icons/app-store-connect/app-store-connect-64x64.png'',
          timestamp = toISOString e,
          url = ''https://appstoreconnect.apple.com/apps/'' @ appId app @ ''/appstore'',
          embed_fields =
            map (\<lambda>field. \<lparr>field_name = title field, field_value = fvalue field,
                           inline = short field\<rparr>)
              (composeFields e previousStatus currentStatus buildNumber)\<rparr>]\<rparr>"

section \<open>The pass over the applications\<close>

text \<open>
  The body of the \<open>try\<close> for one application, lines 118 to 259. Its result is \<open>Inl\<close> of
  the error when a step raises, with the world as the steps before left it. The
  mapping is loaded a second time at line 162, where the previous value is read from
  it, and a third time inside \<open>savePreviousStatus\<close>. The POST is recorded in \<open>requests\<close>
  when it is issued, whatever its outcome.
\<close>

definition checkApp_try :: "env \<Rightarrow> AppConfig \<Rightarrow> world \<Rightarrow> (exn + unit) \<times> world" where
  "checkApp_try e app w =
     (case fetchStatus e app of
        Inl error \<Rightarrow> (Inl error, w)
      | Inr (currentStatus, buildNumber) \<Rightarrow>
          (case hasStatusChanged (appId app) currentStatus w of
             (True, w1) \<Rightarrow>
               (case loadPreviousStatuses w1 of
                  (previousStatuses, w2) \<Rightarrow>
                    (let previousStatus = get_property previousStatuses (appId app);
                         payload = webhookPayload e app previousStatus currentStatus buildNumber;
                         w3 = w2\<lparr>requests := requests w2 @ [(webhookUrl app, payload)]\<rparr>
                     in case axios_post e (webhookUrl app) payload of
                          Inl error \<Rightarrow> (Inl error, w3)
                        | Inr u \<Rightarrow> (Inr (), savePreviousStatus (appId app) currentStatus w3)))
           | (False, w1) \<Rightarrow> (Inr (), savePreviousStatus (appId app) currentStatus w1)))"

text \<open>One iteration of the loop: the \<open>try\<close> and its \<open>catch\<close>, which writes two lines to the
  console and raises nothing (the POST of the error message is commented out in the
  source, and the message it builds is not used).\<close>

definition checkApp :: "env \<Rightarrow> AppConfig \<Rightarrow> world \<Rightarrow> world" where
  "checkApp e app w =
     (case checkApp_try e app w of
        (Inl error, w') \<Rightarrow>
          console_error (Plain error) (console_error (CheckError (name app) error) w')
      | (Inr u, w') \<Rightarrow> w')"

fun forApps :: "env \<Rightarrow> AppConfig list \<Rightarrow> world \<Rightarrow> world" where
  "forApps e [] w = w"
| "forApps e (app # apps) w = forApps e apps (checkApp e app w)"

definition checkAppStatus :: "env \<Rightarrow> AppConfig list \<Rightarrow> world \<Rightarrow> world" where
  "checkAppStatus e apps w =
     (if \<not> credentials e then console_error NoCredentials w
      else forApps e apps w)"

text \<open>
  The world right after the POST of line 256 was issued, when a change was detected in
  \<open>w\<close>: the two loads have run (lines 93 and 162) and the request is recorded.
\<close>

definition notified :: "env \<Rightarrow> AppConfig \<Rightarrow> AppStatus \<Rightarrow> string option \<Rightarrow> world \<Rightarrow> world" where
  "notified e app cur bn w =
     (let w2 = snd (loadPreviousStatuses (snd (loadPreviousStatuses w)))
      in w2\<lparr>requests := requests w2 @
            [(webhookUrl app,
              webhookPayload e app (get_property (stored w) (appId app)) cur bn)]\<rparr>)"

section \<open>Example inputs\<close>

text \<open>Three applications, one of them with an id that names a member of
  \<open>Object.prototype\<close>; one iOS version in review without a build link; an environment
  whose requests succeed, one whose webhook answers with status 500, one whose GET is
  rejected with status 401; and five states of the status file, the last one with
  invalid content on a file system that refuses the write.\<close>

definition example_app :: AppConfig where
  "example_app =
     \<lparr>name = ''Demo'', appId = ''1234567890'', webhookUrl = ''https://hooks.example/demo'',
      icon = ''https://hooks.example/demo.png''\<rparr>"

definition other_app :: AppConfig where
  "other_app =
     \<lparr>name = ''Other'', appId = ''555'', webhookUrl = ''https://hooks.example/other'',
      icon = ''https://hooks.example/other.png''\<rparr>"

definition constructor_app :: AppConfig where
  "constructor_app =
     \<lparr>name = ''Ctor'', appId = ''constructor'', webhookUrl = ''https://hooks.example/ctor'',
      icon = ''https://hooks.example/ctor.png''\<rparr>"

definition example_item :: VersionItem where
  "example_item =
     \<lparr>platform = ''IOS'', appVersionState = ''IN_REVIEW'',
      attr_createdDate = Some ''2024-05-01T09:30:00Z'', attr_versionString = ''1.2.0'',
      attr_releaseType = ''MANUAL'', build_data_id = None\<rparr>"

definition example_response :: AppStoreConnectResponse where
  "example_response = \<lparr>data = Some [example_item], included = None\<rparr>"

definition example_status :: AppStatus where
  "example_status = statusOf example_item"

definition example_env :: env where
  "example_env =
     \<lparr>credentials = True, generateToken = Inr ''token'',
      axios_get = (\<lambda>u h. Inr example_response),
      axios_post = (\<lambda>u p. Inr ()),
      dayjs_format = (\<lambda>d. d),
      toISOString = ''2024-05-01T10:00:00.000Z''\<rparr>"

definition failing_env :: env where
  "failing_env = example_env\<lparr>axios_post := (\<lambda>u p. Inl (AxiosError (Some 500)))\<rparr>"

definition rejecting_env :: env where
  "rejecting_env = example_env\<lparr>axios_get := (\<lambda>u h. Inl (AxiosError (Some 401)))\<rparr>"

definition empty_world :: world where
  "empty_world =
     \<lparr>statusFile = Some (Json Map.empty), writable = True, console = [], requests = []\<rparr>"

definition corrupt_world :: world where
  "corrupt_world =
     \<lparr>statusFile = Some Unparsable, writable = True, console = [], requests = []\<rparr>"

definition missing_world :: world where
  "missing_world = \<lparr>statusFile = None, writable = True, console = [], requests = []\<rparr>"

definition seen_world :: world where
  "seen_world =
     \<lparr>statusFile = Some (Json [''1234567890'' \<mapsto> example_status]), writable = True,
      console = [], requests = []\<rparr>"

definition readonly_world :: world where
  "readonly_world =
     \<lparr>statusFile = Some Unparsable, writable = False, console = [], requests = []\<rparr>"

section \<open>Facts about the store and the pass\<close>

lemma fst_load: "fst (loadPreviousStatuses w) = stored w"
  by (auto simp: loadPreviousStatuses_def stored_def readFileSync_def JSON_parse_def fun_eq_iff
      split: option.splits file_text.splits)

lemma load_file: "statusFile (snd (loadPreviousStatuses w)) = statusFile w"
  by (auto simp: loadPreviousStatuses_def readFileSync_def JSON_parse_def console_error_def
      split: option.splits file_text.splits)

lemma load_writable: "writable (snd (loadPreviousStatuses w)) = writable w"
  by (auto simp: loadPreviousStatuses_def readFileSync_def JSON_parse_def console_error_def
      split: option.splits file_text.splits)

lemma load_requests: "requests (snd (loadPreviousStatuses w)) = requests w"
  by (auto simp: loadPreviousStatuses_def readFileSync_def JSON_parse_def console_error_def
      split: option.splits file_text.splits)

lemma stored_cong: "statusFile w = statusFile w' \<Longrightarrow> stored w = stored w'"
  by (simp add: stored_def fun_eq_iff)

lemma fst_changed:
  "fst (hasStatusChanged a cur w) =
     (case stored w a of None \<Rightarrow> True
      | Some p \<Rightarrow> state p \<noteq> state cur \<or> versionString p \<noteq> versionString cur)"
  using fst_load [of w]
  by (auto simp: hasStatusChanged_def Let_def get_property_def truthy_def state_of_def
      versionString_of_def split: prod.splits option.splits)

lemma snd_changed: "snd (hasStatusChanged a cur w) = snd (loadPreviousStatuses w)"
  by (auto simp: hasStatusChanged_def Let_def split: prod.splits)

lemma save_unfold:
  "savePreviousStatus a st w =
     (let w1 = snd (loadPreviousStatuses w)
      in if writable w then w1\<lparr>statusFile := Some (Json (set_property (stored w) a st))\<rparr>
         else w1\<lparr>console := console w1 @ [SaveError EACCES]\<rparr>)"
proof -
  obtain m w1 where l: "loadPreviousStatuses w = (m, w1)"
    by (cases "loadPreviousStatuses w") auto
  have m: "m = stored w" using fst_load [of w] l by simp
  have wr: "writable w1 = writable w" using load_writable [of w] l by simp
  show ?thesis
    by (simp add: savePreviousStatus_def l m wr writeFileSync_def JSON_stringify_def
        console_error_def Let_def)
qed

lemma save_file:
  "statusFile (savePreviousStatus a st w) =
     (if writable w then Some (Json (set_property (stored w) a st)) else statusFile w)"
  by (simp add: save_unfold Let_def load_file)

lemma save_requests: "requests (savePreviousStatus a st w) = requests w"
  by (simp add: save_unfold Let_def load_requests)

lemma save_writable: "writable (savePreviousStatus a st w) = writable w"
  by (simp add: save_unfold Let_def load_writable)

lemma stored_save:
  "stored (savePreviousStatus a st w) =
     (if writable w then set_property (stored w) a st else stored w)"
proof (cases "writable w")
  case True
  show ?thesis
  proof
    fix k
    have "stored (savePreviousStatus a st w) k = set_property (stored w) a st k"
      unfolding stored_def [of "savePreviousStatus a st w" k] save_file using True by simp
    then show "stored (savePreviousStatus a st w) k =
        (if writable w then set_property (stored w) a st else stored w) k"
      using True by simp
  qed
next
  case False
  have "statusFile (savePreviousStatus a st w) = statusFile w"
    using False by (simp add: save_file)
  then have "stored (savePreviousStatus a st w) = stored w"
    by (rule stored_cong)
  then show ?thesis
    using False by simp
qed

lemma set_property_other: "k \<noteq> a \<Longrightarrow> set_property m a st k = m k"
  by (simp add: set_property_def)

lemma try_fetch_error:
  "fetchStatus e app = Inl err \<Longrightarrow> checkApp_try e app w = (Inl err, w)"
  by (simp add: checkApp_try_def)

lemma try_unchanged:
  assumes "fetchStatus e app = Inr (cur, bn)" and "\<not> fst (hasStatusChanged (appId app) cur w)"
  shows "checkApp_try e app w =
           (Inr (), savePreviousStatus (appId app) cur (snd (loadPreviousStatuses w)))"
  using assms snd_changed [of "appId app" cur w]
  by (auto simp: checkApp_try_def split: prod.splits bool.splits)

lemma try_changed:
  assumes "fetchStatus e app = Inr (cur, bn)" and "fst (hasStatusChanged (appId app) cur w)"
  shows "checkApp_try e app w =
           (case axios_post e (webhookUrl app)
                   (webhookPayload e app (get_property (stored w) (appId app)) cur bn) of
              Inl err \<Rightarrow> (Inl err, notified e app cur bn w)
            | Inr u \<Rightarrow> (Inr (), savePreviousStatus (appId app) cur (notified e app cur bn w)))"
proof -
  obtain w1 where h: "hasStatusChanged (appId app) cur w = (True, w1)"
    using assms(2) by (cases "hasStatusChanged (appId app) cur w") auto
  have w1: "w1 = snd (loadPreviousStatuses w)"
    using snd_changed [of "appId app" cur w] h by simp
  obtain m w2 where l: "loadPreviousStatuses w1 = (m, w2)"
    by (cases "loadPreviousStatuses w1") auto
  have m: "m = stored w"
    using fst_load [of w1] l w1 stored_cong [OF load_file [of w]] by simp
  have w2: "w2 = snd (loadPreviousStatuses (snd (loadPreviousStatuses w)))"
    using l w1 by simp
  show ?thesis
    using assms(1) h l
    by (simp add: checkApp_try_def notified_def Let_def m w2 split: sum.splits)
qed

lemma notified_file: "statusFile (notified e app cur bn w) = statusFile w"
  by (simp add: notified_def Let_def load_file)

lemma notified_writable: "writable (notified e app cur bn w) = writable w"
  by (simp add: notified_def Let_def load_writable)

lemma notified_requests:
  "requests (notified e app cur bn w) =
     requests w @
       [(webhookUrl app, webhookPayload e app (get_property (stored w) (appId app)) cur bn)]"
  by (simp add: notified_def Let_def load_requests)

lemma console_error_file: "statusFile (console_error l w) = statusFile w"
  by (simp add: console_error_def)

lemma console_error_requests: "requests (console_error l w) = requests w"
  by (simp add: console_error_def)

lemma checkApp_file: "statusFile (checkApp e app w) = statusFile (snd (checkApp_try e app w))"
  by (simp add: checkApp_def console_error_file split: prod.splits sum.splits)

lemma checkApp_requests: "requests (checkApp e app w) = requests (snd (checkApp_try e app w))"
  by (simp add: checkApp_def console_error_requests split: prod.splits sum.splits)

lemma forApps_append: "forApps e (xs @ ys) w = forApps e ys (forApps e xs w)"
  by (induction xs arbitrary: w) simp_all

lemma checkApp_stored_other:
  assumes "k \<noteq> appId app"
  shows "stored (checkApp e app w) k = stored w k"
proof -
  have l: "stored (snd (loadPreviousStatuses w)) = stored w"
    by (rule stored_cong) (rule load_file)
  have n: "stored (notified e app cur bn w) = stored w" for cur bn
    by (rule stored_cong) (rule notified_file)
  have "stored (snd (checkApp_try e app w)) k = stored w k"
  proof (cases "fetchStatus e app")
    case (Inl err)
    then show ?thesis by (simp add: try_fetch_error)
  next
    case (Inr r)
    obtain cur bn where r: "r = (cur, bn)" by (cases r) auto
    show ?thesis
    proof (cases "fst (hasStatusChanged (appId app) cur w)")
      case True
      show ?thesis
        using assms Inr r
        by (simp add: try_changed [OF _ True] stored_save n set_property_other
            split: sum.splits)
    next
      case False
      show ?thesis
        using assms Inr r
        by (simp add: try_unchanged [OF _ False] stored_save l set_property_other)
    qed
  qed
  moreover have "stored (checkApp e app w) = stored (snd (checkApp_try e app w))"
    by (rule stored_cong) (rule checkApp_file)
  ultimately show ?thesis by simp
qed

lemma forApps_stored_other:
  "k \<notin> appId ` set apps \<Longrightarrow> stored (forApps e apps w) k = stored w k"
  by (induction apps arbitrary: w) (simp_all add: checkApp_stored_other)

lemma example_fetch: "fetchStatus example_env example_app = Inr (example_status, None)"
  by (simp add: fetchStatus_def example_env_def example_response_def example_item_def
      example_status_def buildNumberOf_def)

lemma constructor_fetch: "fetchStatus example_env constructor_app = Inr (example_status, None)"
  by (simp add: fetchStatus_def example_env_def example_response_def example_item_def
      example_status_def buildNumberOf_def)

lemma failing_fetch: "fetchStatus failing_env example_app = Inr (example_status, None)"
  by (simp add: fetchStatus_def failing_env_def example_env_def example_response_def
      example_item_def example_status_def buildNumberOf_def)

lemma rejecting_fetch: "fetchStatus rejecting_env example_app = Inl (AxiosError (Some 401))"
  by (simp add: fetchStatus_def rejecting_env_def example_env_def)

lemma failing_post: "axios_post failing_env u p = Inl (AxiosError (Some 500))"
  by (simp add: failing_env_def example_env_def)

lemma stored_empty: "stored empty_world k = None"
  by (simp add: stored_def empty_world_def)

lemma stored_seen: "stored seen_world ''1234567890'' = Some example_status"
  by (simp add: stored_def seen_world_def)

lemma example_id_plain: "get_property (stored empty_world) (appId example_app) = Undefined"
  by (simp add: get_property_def stored_empty example_app_def object_prototype_names_def)

lemma constructor_id_inherited:
  "get_property (stored empty_world) (appId constructor_app) = Inherited"
  by (simp add: get_property_def stored_empty constructor_app_def object_prototype_names_def)

lemma titleText_cases:
  "titleText app Undefined cur = name app @ title_state_changed"
  "titleText app Inherited cur = name app @ title_both_changed"
  "titleText app (Own p) cur =
     name app @
       (if versionString p \<noteq> versionString cur
          then if state p \<noteq> state cur then title_both_changed else title_version_changed
        else title_state_changed)"
  by (simp_all add: titleText_def versionChanged_def stateChanged_def truthy_def state_of_def
      versionString_of_def)

lemma composeFields_cases:
  "composeFields e Undefined cur bn =
     [\<lparr>title = label_current_state,
       fvalue = Some (getStateEmoji (state cur) @ '' '' @ getStateMessage (state cur)),
       short = True\<rparr>,
      \<lparr>title = label_current_version, fvalue = Some (displayVersion cur bn), short = True\<rparr>,
      \<lparr>title = label_release_type, fvalue = Some (getReleaseTypeMessage (releaseType cur)),
       short = True\<rparr>,
      \<lparr>title = label_submitted, fvalue = Some (submittedDate e cur), short = True\<rparr>]"
  "composeFields e Inherited cur bn =
     [\<lparr>title = label_current_state,
       fvalue = Some (getStateEmoji (state cur) @ '' '' @ getStateMessage (state cur)),
       short = True\<rparr>,
      \<lparr>title = label_current_version, fvalue = Some (displayVersion cur bn), short = True\<rparr>,
      \<lparr>title = label_release_type, fvalue = Some (getReleaseTypeMessage (releaseType cur)),
       short = True\<rparr>,
      \<lparr>title = label_previous_version, fvalue = None, short = True\<rparr>,
      \<lparr>title = label_submitted, fvalue = Some (submittedDate e cur), short = True\<rparr>]"
  "composeFields e (Own p) cur bn =
     [\<lparr>title = label_current_state,
       fvalue = Some (getStateEmoji (state cur) @ '' '' @ getStateMessage (state cur)),
       short = True\<rparr>,
      \<lparr>title = label_current_version, fvalue = Some (displayVersion cur bn), short = True\<rparr>,
      \<lparr>title = label_release_type, fvalue = Some (getReleaseTypeMessage (releaseType cur)),
       short = True\<rparr>] @
     (if versionString p \<noteq> versionString cur
        then [\<lparr>title = label_previous_version, fvalue = Some (versionString p), short = True\<rparr>]
      else []) @
     [\<lparr>title = label_submitted, fvalue = Some (submittedDate e cur), short = True\<rparr>]"
  by (simp_all add: composeFields_def Let_def versionChanged_def truthy_def versionString_of_def)

lemma first_seen_requests:
  assumes "stored w (appId app) = None" and "fetchStatus e app = Inr (cur, bn)"
  shows "requests (checkApp e app w) =
           requests w @
             [(webhookUrl app,
               webhookPayload e app
                 (if appId app \<in> set object_prototype_names then Inherited else Undefined)
                 cur bn)]"
proof -
  have ch: "fst (hasStatusChanged (appId app) cur w)"
    using assms(1) by (simp add: fst_changed)
  have g: "get_property (stored w) (appId app) =
             (if appId app \<in> set object_prototype_names then Inherited else Undefined)"
    using assms(1) by (simp add: get_property_def)
  have "requests (snd (checkApp_try e app w)) =
          requests w @
            [(webhookUrl app, webhookPayload e app (get_property (stored w) (appId app)) cur bn)]"
    by (simp add: try_changed [OF assms(2) ch] notified_requests save_requests split: sum.splits)
  then show ?thesis
    by (simp add: checkApp_requests g)
qed

section \<open>The change check\<close>

text \<open>
  Claim C1. For every application id and candidate record, \<open>hasStatusChanged\<close> returns
  true exactly when the file holds no record for that id, or the held record's state
  differs from the candidate's, or its version string differs. A candidate equal to the
  held record is unchanged; so is any candidate with the same state and version string,
  whatever its release type and creation date; and a pass whose fetched record has the
  held state and version string issues no POST, whatever build number came with it.
\<close>

theorem change_check_characterised:
  "(fst (hasStatusChanged app_id cur w) \<longleftrightarrow>
      stored w app_id = None \<or>
      (\<exists>p. stored w app_id = Some p \<and>
           (state p \<noteq> state cur \<or> versionString p \<noteq> versionString cur))) \<and>
   (stored w app_id = Some cur \<longrightarrow> \<not> fst (hasStatusChanged app_id cur w)) \<and>
   (\<forall>p. stored w app_id = Some p \<and> state cur = state p \<and> versionString cur = versionString p
        \<longrightarrow> \<not> fst (hasStatusChanged app_id cur w)) \<and>
   (\<forall>e app p bn. app_id = appId app \<and> fetchStatus e app = Inr (cur, bn) \<and>
        stored w app_id = Some p \<and> state cur = state p \<and> versionString cur = versionString p
        \<longrightarrow> requests (checkApp e app w) = requests w)"
proof -
  have iff: "fst (hasStatusChanged app_id cur w) \<longleftrightarrow>
      stored w app_id = None \<or>
      (\<exists>p. stored w app_id = Some p \<and>
           (state p \<noteq> state cur \<or> versionString p \<noteq> versionString cur))"
    by (cases "stored w app_id") (simp_all add: fst_changed)
  have same: "\<not> fst (hasStatusChanged app_id cur w)"
    if "stored w app_id = Some p" "state cur = state p" "versionString cur = versionString p" for p
    using that by (simp add: fst_changed)
  have quiet: "requests (checkApp e app w) = requests w"
    if "app_id = appId app" "fetchStatus e app = Inr (cur, bn)" "stored w app_id = Some p"
       "state cur = state p" "versionString cur = versionString p" for e app p bn
  proof -
    have "\<not> fst (hasStatusChanged (appId app) cur w)"
      using same [OF that(3-5)] that(1) by simp
    then show ?thesis
      using that(2) by (simp add: checkApp_requests try_unchanged save_requests load_requests)
  qed
  show ?thesis
    using iff same quiet by blast
qed

theorem change_check_characterised_witness:
  "\<not> fst (hasStatusChanged ''1234567890''
            (example_status\<lparr>releaseType := ''SCHEDULED'', createdDate := None\<rparr>) seen_world) \<and>
   fst (hasStatusChanged ''1234567890'' (example_status\<lparr>state := ''ACCEPTED''\<rparr>) seen_world) \<and>
   fst (hasStatusChanged ''1234567890'' example_status empty_world) \<and>
   \<not> fst (hasStatusChanged ''1234567890'' example_status seen_world) \<and>
   requests (checkApp example_env example_app seen_world) = requests seen_world"
  using
    change_check_characterised
      [of "''1234567890''" "example_status\<lparr>releaseType := ''SCHEDULED'', createdDate := None\<rparr>"
          seen_world]
    change_check_characterised
      [of "''1234567890''" "example_status\<lparr>state := ''ACCEPTED''\<rparr>" seen_world]
    change_check_characterised [of "''1234567890''" example_status empty_world]
    change_check_characterised [of "''1234567890''" example_status seen_world]
    example_fetch
  by (simp add: stored_empty stored_seen example_status_def statusOf_def example_item_def
      example_app_def)

text \<open>
  Claim C3. When the file holds no record for the application's id and the fetch
  returned a record, the change check answers changed and the pass issues exactly one
  POST, to the application's webhook. Its body is one embed: the title, the colour of
  the state, the application's name and icon, the fixed footer, the composition time, the
  link to the application's page and the fields in order. For an id that names no
  member of \<open>Object.prototype\<close> the title is the state-changed one and there are four
  fields; for an id that names one, the value read at line 162 is the inherited member,
  the title is the both-changed one and a previous-version field without a value is
  added.
\<close>

theorem first_seen_notifies_once:
  assumes "stored w (appId app) = None" and "fetchStatus e app = Inr (cur, bn)"
  shows "fst (hasStatusChanged (appId app) cur w) \<and>
         requests (checkApp e app w) =
           requests w @
             [(webhookUrl app,
               \<lparr>embeds =
                  [\<lparr>embed_title =
                      name app @
                        (if appId app \<in> set object_prototype_names then title_both_changed
                         else title_state_changed),
                    color = getStateColor (state cur),
                    author_name = name app,
                    author_icon_url = icon app,
                    footer_text = ''App Store Connect'',
                    footer_icon_url =
                      ''https://developer.apple.com/assets/elements/icons/app-store-connect/app-store-connect-64x64.png'',
                    timestamp = toISOString e,
                    url = ''https://appstoreconnect.apple.com/apps/'' @ appId app @ ''/appstore'',
                    embed_fields =
                      [\<lparr>field_name = label_current_state,
                        field_value =
                          Some (getStateEmoji (state cur) @ '' '' @ getStateMessage (state cur)),
                        inline = True\<rparr>,
                       \<lparr>field_name = label_current_version,
                        field_value = Some (displayVersion cur bn), inline = True\<rparr>,
                       \<lparr>field_name = label_release_type,
                        field_value = Some (getReleaseTypeMessage (releaseType cur)),
                        inline = True\<rparr>] @
                      (if appId app \<in> set object_prototype_names
                         then [\<lparr>field_name = label_previous_version, field_value = None,
                                 inline = True\<rparr>]
                       else []) @
                      [\<lparr>field_name = label_submitted,
                        field_value = Some (submittedDate e cur), inline = True\<rparr>]\<rparr>]\<rparr>)]"
proof -
  have ch: "fst (hasStatusChanged (appId app) cur w)"
    using assms(1) by (simp add: fst_changed)
  show ?thesis
    using ch first_seen_requests [OF assms]
    by (simp add: webhookPayload_def titleText_cases composeFields_cases)
qed

theorem first_seen_notifies_once_witness:
  "fst (hasStatusChanged (appId example_app) example_status empty_world) \<and>
   map fst (requests (checkApp example_env example_app empty_world)) =
     [''https://hooks.example/demo''] \<and>
   map (\<lambda>r. map embed_title (embeds (snd r)))
       (requests (checkApp example_env example_app empty_world)) =
     [[''Demo'' @ title_state_changed]] \<and>
   map (\<lambda>r. map (\<lambda>em. map field_name (embed_fields em)) (embeds (snd r)))
       (requests (checkApp example_env example_app empty_world)) =
     [[[label_current_state, label_current_version, label_release_type, label_submitted]]]"
proof -
  have n: "appId example_app \<notin> set object_prototype_names"
    by (simp add: example_app_def object_prototype_names_def)
  have r: "requests empty_world = []"
    by (simp add: empty_world_def)
  have a: "name example_app = ''Demo''" "webhookUrl example_app = ''https://hooks.example/demo''"
    by (simp_all add: example_app_def)
  show ?thesis
    using first_seen_notifies_once [OF stored_empty example_fetch]
    by (simp add: n r a)
qed

section \<open>A delivery that fails\<close>

text \<open>
  Claim C2, as stated, says that the record is persisted when the POST fails and that
  the next run stays silent. In the source the POST of line 256 and the save of line
  259 stand in the same \<open>try\<close>: a rejected POST jumps to the \<open>catch\<close> and the save is
  skipped. With a webhook that answers 500 and a file holding no record, the fetch and
  the change check succeed, the POST fails, the file still holds no record for the
  application, and the next pass over the same fetched record issues a second POST.
\<close>

theorem failed_delivery_not_persisted:
  "fetchStatus failing_env example_app = Inr (example_status, None) \<and>
   fst (hasStatusChanged (appId example_app) example_status empty_world) \<and>
   axios_post failing_env (webhookUrl example_app)
     (webhookPayload failing_env example_app Undefined example_status None) =
       Inl (AxiosError (Some 500)) \<and>
   stored (checkApp failing_env example_app empty_world) (appId example_app) = None \<and>
   length (requests (checkApp failing_env example_app empty_world)) = 1 \<and>
   length (requests (checkApp example_env example_app
                       (checkApp failing_env example_app empty_world))) = 2"
proof -
  let ?w = "checkApp failing_env example_app empty_world"
  have ch: "fst (hasStatusChanged (appId example_app) example_status empty_world)"
    by (simp add: fst_changed stored_empty)
  have t: "checkApp_try failing_env example_app empty_world =
             (Inl (AxiosError (Some 500)),
              notified failing_env example_app example_status None empty_world)"
    by (simp add: try_changed [OF failing_fetch ch] failing_post)
  have f: "statusFile ?w = statusFile empty_world"
    by (simp add: checkApp_file t notified_file)
  have s: "stored ?w = stored empty_world"
    using stored_cong [OF f] .
  have "requests ?w = requests empty_world @
          [(webhookUrl example_app,
            webhookPayload failing_env example_app
              (get_property (stored empty_world) (appId example_app)) example_status None)]"
    by (simp add: checkApp_requests t notified_requests)
  then have r1: "length (requests ?w) = 1"
    by (simp add: empty_world_def)
  have ch2: "fst (hasStatusChanged (appId example_app) example_status ?w)"
    by (simp add: fst_changed s stored_empty)
  have r2: "length (requests (checkApp example_env example_app ?w)) = 2"
    using r1
    by (simp add: checkApp_requests [of example_env] try_changed [OF example_fetch ch2]
        notified_requests save_requests split: sum.splits)
  show ?thesis
    using failing_fetch ch failing_post s r1 r2 by (simp add: stored_empty)
qed

text \<open>
  Claim C2, amended. When the fetch succeeds, a change is detected and the POST fails,
  the error is caught and logged, the status file is left as it was (the fetched
  record is not persisted in that pass), and a later pass that fetches the same record
  detects the change again and issues the POST again.
\<close>

theorem failed_delivery_retried:
  assumes "fetchStatus e app = Inr (cur, bn)"
    and "fst (hasStatusChanged (appId app) cur w)"
    and "axios_post e (webhookUrl app)
           (webhookPayload e app (get_property (stored w) (appId app)) cur bn) = Inl err"
  shows "statusFile (checkApp e app w) = statusFile w \<and>
         stored (checkApp e app w) = stored w \<and>
         console (checkApp e app w) =
           console (notified e app cur bn w) @ [CheckError (name app) err, Plain err] \<and>
         (\<forall>e' bn'. fetchStatus e' app = Inr (cur, bn') \<longrightarrow>
            fst (hasStatusChanged (appId app) cur (checkApp e app w)) \<and>
            requests (checkApp e' app (checkApp e app w)) =
              requests (checkApp e app w) @
                [(webhookUrl app,
                  webhookPayload e' app (get_property (stored w) (appId app)) cur bn')])"
proof -
  have t: "checkApp_try e app w = (Inl err, notified e app cur bn w)"
    using try_changed [OF assms(1,2)] assms(3) by simp
  have f: "statusFile (checkApp e app w) = statusFile w"
    by (simp add: checkApp_file t notified_file)
  have s: "stored (checkApp e app w) = stored w"
    using stored_cong [OF f] .
  have c: "console (checkApp e app w) =
           console (notified e app cur bn w) @ [CheckError (name app) err, Plain err]"
    by (simp add: checkApp_def t console_error_def)
  have ch: "fst (hasStatusChanged (appId app) cur (checkApp e app w))"
    using assms(2) by (simp add: fst_changed s)
  have again: "requests (checkApp e' app (checkApp e app w)) =
              requests (checkApp e app w) @
                [(webhookUrl app,
                  webhookPayload e' app (get_property (stored w) (appId app)) cur bn')]"
    if "fetchStatus e' app = Inr (cur, bn')" for e' bn'
    by (simp add: checkApp_requests [of e' app] try_changed [OF that ch] notified_requests
        save_requests s split: sum.splits)
  show ?thesis
    using f s c ch again by blast
qed

theorem failed_delivery_retried_witness:
  "statusFile (checkApp failing_env example_app empty_world) = statusFile empty_world \<and>
   fst (hasStatusChanged (appId example_app) example_status
          (checkApp failing_env example_app empty_world)) \<and>
   requests (checkApp example_env example_app (checkApp failing_env example_app empty_world)) =
     requests (checkApp failing_env example_app empty_world) @
       [(webhookUrl example_app,
         webhookPayload example_env example_app Undefined example_status None)]"
proof -
  have ch: "fst (hasStatusChanged (appId example_app) example_status empty_world)"
    by (simp add: fst_changed stored_empty)
  show ?thesis
    using failed_delivery_retried [OF failing_fetch ch, of "AxiosError (Some 500)"] example_fetch
    by (simp add: failing_post example_id_plain)
qed

section \<open>The composed notification\<close>

text \<open>
  Claim C4. When the current state is one of \<open>READY_FOR_DISTRIBUTION\<close>,
  \<open>PENDING_DEVELOPER_RELEASE\<close>, \<open>WAITING_FOR_REVIEW\<close> and \<open>IN_REVIEW\<close>, the current-version
  value is the version string, a space, and the build number in parentheses; for every
  other state it is the version string alone, whether or not there is a build number.
  That value is the value of the second field, titled as the current version.
\<close>

theorem current_version_field:
  "(state cur \<in> {''READY_FOR_DISTRIBUTION'', ''PENDING_DEVELOPER_RELEASE'',
                  ''WAITING_FOR_REVIEW'', ''IN_REVIEW''} \<longrightarrow>
      displayVersion cur (Some b) = versionString cur @ '' ('' @ b @ '')'') \<and>
   (state cur \<notin> {''READY_FOR_DISTRIBUTION'', ''PENDING_DEVELOPER_RELEASE'',
                  ''WAITING_FOR_REVIEW'', ''IN_REVIEW''} \<longrightarrow>
      displayVersion cur bn = versionString cur) \<and>
   title (composeFields e prev cur bn ! 1) = label_current_version \<and>
   fvalue (composeFields e prev cur bn ! 1) = Some (displayVersion cur bn)"
  by (auto simp: displayVersion_def template_def composeFields_def Let_def)

theorem current_version_field_witness:
  "displayVersion \<lparr>state = ''IN_REVIEW'', createdDate = None, versionString = ''1.2.0'',
                   releaseType = ''MANUAL''\<rparr> (Some ''45'') = ''1.2.0 (45)'' \<and>
   displayVersion \<lparr>state = ''REJECTED'', createdDate = None, versionString = ''1.2.0'',
                   releaseType = ''MANUAL''\<rparr> (Some ''45'') = ''1.2.0'' \<and>
   displayVersion \<lparr>state = ''REJECTED'', createdDate = None, versionString = ''1.2.0'',
                   releaseType = ''MANUAL''\<rparr> None = ''1.2.0''"
  using
    current_version_field
      [of "\<lparr>state = ''IN_REVIEW'', createdDate = None, versionString = ''1.2.0'',
             releaseType = ''MANUAL''\<rparr>" "''45''"]
    current_version_field
      [of "\<lparr>state = ''REJECTED'', createdDate = None, versionString = ''1.2.0'',
             releaseType = ''MANUAL''\<rparr>" _ "Some ''45''"]
    current_version_field
      [of "\<lparr>state = ''REJECTED'', createdDate = None, versionString = ''1.2.0'',
             releaseType = ''MANUAL''\<rparr>" _ None]
  by simp

text \<open>
  Claim C5. For every string, known state or not, the emoji and the label are non-empty
  strings and the colour is one of the six colour codes of the source; a string that is
  none of the case labels gets the default emoji, the default label and the default
  colour. The three lookups are total functions: no input is left without a value.
\<close>

theorem lookups_total:
  "getStateEmoji s \<noteq> [] \<and> getStateMessage s \<noteq> [] \<and>
   getStateColor s \<in> {0x36A64F, 0xDC3545, 0xFFC107, 0x0088CC, 0x6F42C1, 0x95A5A6} \<and>
   0 < getStateColor s \<and>
   (s \<notin> set known_states \<longrightarrow>
      getStateEmoji s = [CHR 0xE2, CHR 0x9D, CHR 0x93] \<and>
      getStateMessage s =
        [CHR 0xEC, CHR 0x95, CHR 0x8C, CHR 0x20, CHR 0xEC, CHR 0x88, CHR 0x98, CHR 0x20, CHR 0xEC,
         CHR 0x97, CHR 0x86, CHR 0xEB, CHR 0x8A, CHR 0x94, CHR 0x20, CHR 0xEC, CHR 0x83, CHR 0x81,
         CHR 0xED, CHR 0x83, CHR 0x9C] \<and>
      getStateColor s = 0x95A5A6)"
proof -
  have e: "getStateEmoji s \<noteq> []" by (simp add: getStateEmoji_def)
  have m: "getStateMessage s \<noteq> []" by (simp add: getStateMessage_def)
  have c: "getStateColor s \<in> {0x36A64F, 0xDC3545, 0xFFC107, 0x0088CC, 0x6F42C1, 0x95A5A6}"
    by (simp add: getStateColor_def)
  have p: "0 < getStateColor s" by (simp add: getStateColor_def)
  have d: "getStateEmoji s = [CHR 0xE2, CHR 0x9D, CHR 0x93] \<and>
      getStateMessage s =
        [CHR 0xEC, CHR 0x95, CHR 0x8C, CHR 0x20, CHR 0xEC, CHR 0x88, CHR 0x98, CHR 0x20, CHR 0xEC,
         CHR 0x97, CHR 0x86, CHR 0xEB, CHR 0x8A, CHR 0x94, CHR 0x20, CHR 0xEC, CHR 0x83, CHR 0x81,
         CHR 0xED, CHR 0x83, CHR 0x9C] \<and>
      getStateColor s = 0x95A5A6"
    if "s \<notin> set known_states"
    using that
    by (simp add: known_states_def getStateEmoji_def getStateMessage_def getStateColor_def)
  show ?thesis using e m c p d by blast
qed

theorem lookups_total_witness:
  "getStateEmoji ''NOT_A_STATE'' = [CHR 0xE2, CHR 0x9D, CHR 0x93] \<and>
   getStateColor ''NOT_A_STATE'' = 0x95A5A6 \<and>
   getStateMessage ''NOT_A_STATE'' \<noteq> [] \<and>
   getStateEmoji ''IN_REVIEW'' \<noteq> []"
  using lookups_total [of "''NOT_A_STATE''"] lookups_total [of "''IN_REVIEW''"]
  by (simp add: known_states_def)

text \<open>
  Claim C6 says that a first observation gets the state-changed title. The source
  reads the previous value with \<open>loadPreviousStatuses()[app.appId]\<close> (line 162); for an id
  that names a member of \<open>Object.prototype\<close> and has no record in the file, that value
  is the inherited member: truthy, without \<open>state\<close> and \<open>versionString\<close>. Both flags of
  lines 163 to 165 are then true. For the application with id \<open>constructor\<close>, an empty
  mapping in the file and a fetched record, the POST carries the both-changed title.
\<close>

theorem first_seen_title_of_inherited_id:
  "stored empty_world (appId constructor_app) = None \<and>
   fetchStatus example_env constructor_app = Inr (example_status, None) \<and>
   map (\<lambda>r. map embed_title (embeds (snd r)))
       (requests (checkApp example_env constructor_app empty_world)) =
     [[''Ctor'' @ title_both_changed]] \<and>
   title_both_changed \<noteq> title_state_changed"
proof -
  have i: "appId constructor_app \<in> set object_prototype_names"
    by (simp add: constructor_app_def object_prototype_names_def)
  have r: "requests empty_world = []"
    by (simp add: empty_world_def)
  have a: "name constructor_app = ''Ctor''"
    by (simp add: constructor_app_def)
  have d: "title_both_changed \<noteq> title_state_changed"
    by (simp add: title_both_changed_def title_state_changed_def)
  show ?thesis
    using first_seen_requests [OF stored_empty constructor_fetch] d
    by (simp add: i r a stored_empty constructor_fetch webhookPayload_def titleText_cases)
qed

text \<open>
  Claim C7 says that the list has five fields only when a prior record existed and the
  version changed. For the same first observation of the id \<open>constructor\<close> the condition
  of line 210 holds of the inherited member, and the POST carries five fields: the
  previous-version field, whose value is \<open>undefined\<close>, stands before the submission date
  although the file held no record.
\<close>

theorem first_seen_fields_of_inherited_id:
  "stored empty_world (appId constructor_app) = None \<and>
   map (\<lambda>r. map (\<lambda>em. map field_name (embed_fields em)) (embeds (snd r)))
       (requests (checkApp example_env constructor_app empty_world)) =
     [[[label_current_state, label_current_version, label_release_type,
        label_previous_version, label_submitted]]] \<and>
   map (\<lambda>r. map (\<lambda>em. field_value (embed_fields em ! 3)) (embeds (snd r)))
       (requests (checkApp example_env constructor_app empty_world)) = [[None]] \<and>
   length (composeFields example_env
             (get_property (stored empty_world) (appId constructor_app)) example_status None) = 5"
proof -
  have i: "appId constructor_app \<in> set object_prototype_names"
    by (simp add: constructor_app_def object_prototype_names_def)
  have r: "requests empty_world = []"
    by (simp add: empty_world_def)
  show ?thesis
    using first_seen_requests [OF stored_empty constructor_fetch]
    by (simp add: i r stored_empty constructor_id_inherited webhookPayload_def
        composeFields_cases)
qed

section \<open>Loading and saving\<close>

lemma load_cases:
  "statusFile w = Some (Json statuses) \<Longrightarrow> loadPreviousStatuses w = (statuses, w)"
  "statusFile w = Some Unparsable \<Longrightarrow>
     loadPreviousStatuses w = (Map.empty, w\<lparr>console := console w @ [LoadError SyntaxError]\<rparr>)"
  "statusFile w = None \<Longrightarrow>
     loadPreviousStatuses w = (Map.empty, w\<lparr>console := console w @ [LoadError ENOENT]\<rparr>)"
  by (simp_all add: loadPreviousStatuses_def readFileSync_def JSON_parse_def console_error_def)

lemma constructor_initializes:
  "statusFile w = None \<Longrightarrow> writable w \<Longrightarrow>
     AppStatusService w = Inr (w\<lparr>statusFile := Some (Json Map.empty)\<rparr>)"
  by (simp add: AppStatusService_def initializeStatusFile_def writeFileSync_def
      JSON_stringify_def)

text \<open>
  Claim C8 says that a save after a corrupt read leaves a mapping that contains the
  saved entry. The load does return the empty mapping and logs the failure. But for the
  id \<open>__proto__\<close> the assignment of line 85 runs the inherited setter: the mapping gets
  no entry, and the file is overwritten with the empty mapping. The next load finds no
  record for the id.
\<close>

theorem save_of_proto_id_after_corrupt_read:
  "loadPreviousStatuses corrupt_world =
     (Map.empty, corrupt_world\<lparr>console := [LoadError SyntaxError]\<rparr>) \<and>
   writable corrupt_world \<and>
   statusFile (savePreviousStatus ''__proto__'' example_status
                 (snd (loadPreviousStatuses corrupt_world))) = Some (Json Map.empty) \<and>
   get_property
     (fst (loadPreviousStatuses
        (savePreviousStatus ''__proto__'' example_status
           (snd (loadPreviousStatuses corrupt_world))))) ''__proto__'' = Inherited \<and>
   stored (savePreviousStatus ''__proto__'' example_status
             (snd (loadPreviousStatuses corrupt_world))) ''__proto__'' = None"
proof -
  let ?w = "snd (loadPreviousStatuses corrupt_world)"
  have c: "statusFile corrupt_world = Some Unparsable" "console corrupt_world = []"
    "writable corrupt_world"
    by (simp_all add: corrupt_world_def)
  have l: "loadPreviousStatuses corrupt_world =
     (Map.empty, corrupt_world\<lparr>console := [LoadError SyntaxError]\<rparr>)"
    using load_cases(2) [OF c(1)] c(2) by simp
  have s: "stored ?w = Map.empty"
    using stored_cong [OF load_file [of corrupt_world]] c(1) by (simp add: stored_def fun_eq_iff)
  have w: "writable ?w"
    using c(3) by (simp add: load_writable)
  have p: "set_property Map.empty ''__proto__'' example_status = Map.empty"
    by (simp add: set_property_def)
  have f: "statusFile (savePreviousStatus ''__proto__'' example_status ?w) =
             Some (Json Map.empty)"
    using w by (simp add: save_file s p)
  have st: "stored (savePreviousStatus ''__proto__'' example_status ?w) = Map.empty"
    using w by (simp add: stored_save s p)
  have g: "get_property
     (fst (loadPreviousStatuses (savePreviousStatus ''__proto__'' example_status ?w)))
       ''__proto__'' = Inherited"
    by (simp add: fst_load st get_property_def object_prototype_names_def)
  show ?thesis
    using l c(3) f g st by simp
qed

section \<open>Isolation of the applications\<close>

text \<open>
  Claim C9. With the credentials present, \<open>checkAppStatus\<close> is the loop over the
  application list. At every position of the list the loop runs the iteration and
  goes on with the rest of the list from the world that iteration left, whatever
  happened in it: an error raised in the body is caught, two lines are written to the
  console and nothing is raised. When the fetch fails, the iteration only writes those
  two lines: the file is as before and no request is issued. An iteration leaves the
  record of every other application id as it was, and so does the whole loop for the
  ids that are not in the list. \<open>savePreviousStatus\<close> keeps every entry but that of its
  id: when the file system takes the write it sets the entry of an id other than
  \<open>__proto__\<close>, and when the write is refused it logs the failure, raises nothing and
  leaves the file as it was.
\<close>

theorem errors_isolated_per_app:
  "(credentials e \<longrightarrow> checkAppStatus e apps w = forApps e apps w) \<and>
   forApps e (before @ app # rest) w = forApps e rest (checkApp e app (forApps e before w)) \<and>
   (\<forall>err w'. checkApp_try e app w = (Inl err, w') \<longrightarrow>
      checkApp e app w = w'\<lparr>console := console w' @ [CheckError (name app) err, Plain err]\<rparr>) \<and>
   (\<forall>err. fetchStatus e app = Inl err \<longrightarrow>
      checkApp e app w = w\<lparr>console := console w @ [CheckError (name app) err, Plain err]\<rparr> \<and>
      statusFile (checkApp e app w) = statusFile w \<and>
      requests (checkApp e app w) = requests w) \<and>
   (\<forall>k. k \<noteq> appId app \<longrightarrow> stored (checkApp e app w) k = stored w k) \<and>
   (\<forall>k. k \<notin> appId ` set apps \<longrightarrow> stored (forApps e apps w) k = stored w k) \<and>
   (\<forall>k. k \<noteq> app_id \<longrightarrow> stored (savePreviousStatus app_id status w) k = stored w k) \<and>
   (writable w \<and> app_id \<noteq> ''__proto__'' \<longrightarrow>
      stored (savePreviousStatus app_id status w) app_id = Some status) \<and>
   (\<not> writable w \<longrightarrow>
      statusFile (savePreviousStatus app_id status w) = statusFile w \<and>
      console (savePreviousStatus app_id status w) =
        console (snd (loadPreviousStatuses w)) @ [SaveError EACCES])"
proof -
  have a: "forApps e (before @ app # rest) w =
           forApps e rest (checkApp e app (forApps e before w))"
    by (simp add: forApps_append)
  have b: "checkApp e app w = w'\<lparr>console := console w' @ [CheckError (name app) err, Plain err]\<rparr>"
    if "checkApp_try e app w = (Inl err, w')" for err w'
    using that by (simp add: checkApp_def console_error_def)
  have c: "checkApp e app w = w\<lparr>console := console w @ [CheckError (name app) err, Plain err]\<rparr> \<and>
      statusFile (checkApp e app w) = statusFile w \<and> requests (checkApp e app w) = requests w"
    if "fetchStatus e app = Inl err" for err
    by (simp add: b [OF try_fetch_error [OF that]])
  have d: "stored (savePreviousStatus app_id status w) k = stored w k" if "k \<noteq> app_id" for k
    using that by (simp add: stored_save set_property_other)
  have f: "stored (savePreviousStatus app_id status w) app_id = Some status"
    if "writable w" "app_id \<noteq> ''__proto__''"
    using that by (simp add: stored_save set_property_def)
  have g: "statusFile (savePreviousStatus app_id status w) = statusFile w \<and>
      console (savePreviousStatus app_id status w) =
        console (snd (loadPreviousStatuses w)) @ [SaveError EACCES]"
    if "\<not> writable w"
    using that by (simp add: save_unfold Let_def load_file)
  show ?thesis
    using a b c d f g checkApp_stored_other forApps_stored_other
    by (simp add: checkAppStatus_def)
qed

theorem errors_isolated_per_app_witness:
  "checkAppStatus rejecting_env [example_app, other_app] seen_world =
     checkApp rejecting_env other_app (checkApp rejecting_env example_app seen_world) \<and>
   forApps rejecting_env [example_app, other_app] seen_world =
     checkApp rejecting_env other_app (checkApp rejecting_env example_app seen_world) \<and>
   checkApp rejecting_env example_app seen_world =
     seen_world\<lparr>console := [CheckError ''Demo'' (AxiosError (Some 401)),
                             Plain (AxiosError (Some 401))]\<rparr> \<and>
   stored (checkApp example_env other_app seen_world) ''1234567890'' = Some example_status \<and>
   stored (forApps example_env [other_app] seen_world) ''1234567890'' = Some example_status \<and>
   stored (savePreviousStatus ''555'' example_status seen_world) ''1234567890'' =
     Some example_status \<and>
   stored (savePreviousStatus ''555'' example_status seen_world) ''555'' = Some example_status \<and>
   statusFile (savePreviousStatus ''555'' example_status readonly_world) =
     statusFile readonly_world"
proof -
  have n: "''1234567890'' \<noteq> appId other_app" and n': "''1234567890'' \<noteq> ''555''"
    and n'': "''1234567890'' \<notin> appId ` set [other_app]" and p: "''555'' \<noteq> ''__proto__''"
    by (simp_all add: other_app_def)
  have d: "name example_app = ''Demo''" and l: "console seen_world = []"
    and sw: "writable seen_world" and rw: "\<not> writable readonly_world"
    by (simp_all add: example_app_def seen_world_def readonly_world_def)
  have A: "forApps rejecting_env [example_app, other_app] seen_world =
     checkApp rejecting_env other_app (checkApp rejecting_env example_app seen_world)"
    using errors_isolated_per_app
      [where e = rejecting_env and before = "[example_app]" and app = other_app and
        rest = "[]" and w = seen_world]
    by simp
  have B: "checkApp rejecting_env example_app seen_world =
     seen_world\<lparr>console := console seen_world @
       [CheckError (name example_app) (AxiosError (Some 401)), Plain (AxiosError (Some 401))]\<rparr>"
    using errors_isolated_per_app
      [where e = rejecting_env and before = "[]" and app = example_app and rest = "[]" and
        w = seen_world]
      rejecting_fetch by simp
  have C: "stored (checkApp example_env other_app seen_world) ''1234567890'' =
           stored seen_world ''1234567890''"
    using errors_isolated_per_app
      [where e = example_env and before = "[]" and app = other_app and rest = "[]" and
        w = seen_world] n
    by simp
  have D: "stored (savePreviousStatus ''555'' example_status seen_world) ''1234567890'' =
           stored seen_world ''1234567890''"
    using errors_isolated_per_app
      [where e = example_env and w = seen_world and app_id = "''555''" and
        status = example_status] n'
    by simp
  have E: "stored (forApps example_env [other_app] seen_world) ''1234567890'' =
           stored seen_world ''1234567890''"
    using errors_isolated_per_app
      [where e = example_env and w = seen_world and apps = "[other_app]"] n''
    by simp
  have G: "stored (savePreviousStatus ''555'' example_status seen_world) ''555'' =
           Some example_status"
    using errors_isolated_per_app
      [where e = example_env and w = seen_world and app_id = "''555''" and
        status = example_status] sw p
    by simp
  have H: "statusFile (savePreviousStatus ''555'' example_status readonly_world) =
           statusFile readonly_world"
    using errors_isolated_per_app
      [where e = example_env and w = readonly_world and app_id = "''555''" and
        status = example_status] rw
    by simp
  have B1: "checkApp rejecting_env example_app seen_world =
     seen_world\<lparr>console := [CheckError ''Demo'' (AxiosError (Some 401)),
                             Plain (AxiosError (Some 401))]\<rparr>"
    using B d l by simp
  have cr: "credentials rejecting_env"
    by (simp add: rejecting_env_def example_env_def)
  have F: "checkAppStatus rejecting_env [example_app, other_app] seen_world =
           forApps rejecting_env [example_app, other_app] seen_world"
    using errors_isolated_per_app
      [where e = rejecting_env and apps = "[example_app, other_app]" and w = seen_world] cr
    by simp
  show ?thesis
    using A B1 C D E F G H stored_seen by simp
qed

section \<open>A version without a build\<close>

text \<open>
  Claim C10. When the first iOS version of the response has no build link and its state
  is one of \<open>READY_FOR_DISTRIBUTION\<close>, \<open>PENDING_DEVELOPER_RELEASE\<close>, \<open>WAITING_FOR_REVIEW\<close>
  and \<open>IN_REVIEW\<close>, the fetch yields no build number and the current-version field is
  the version string followed by \<open>(undefined)\<close> after a space: the template
  literal prints the word, the suffix is neither left out nor left blank.
\<close>

theorem missing_build_prints_undefined:
  assumes "data response = Some items"
    and "filter (\<lambda>item. platform item = ''IOS'') items = latestVersion # others"
    and "build_data_id latestVersion = None"
    and "appVersionState latestVersion \<in> {''READY_FOR_DISTRIBUTION'',
           ''PENDING_DEVELOPER_RELEASE'', ''WAITING_FOR_REVIEW'', ''IN_REVIEW''}"
    and "generateToken e = Inr token"
    and "axios_get e (''https://api.appstoreconnect.apple.com/v1/apps/'' @ appId app @
                   ''/appStoreVersions?include=build'') (''Bearer '' @ token) = Inr response"
  shows "fetchStatus e app = Inr (statusOf latestVersion, None) \<and>
         displayVersion (statusOf latestVersion) None =
           attr_versionString latestVersion @ '' (undefined)'' \<and>
         fvalue (composeFields e prev (statusOf latestVersion) None ! 1) =
           Some (attr_versionString latestVersion @ '' (undefined)'')"
proof -
  have "items \<noteq> []" using assms(2) by auto
  then obtain x xs where "items = x # xs" by (cases items) auto
  then have f: "fetchStatus e app = Inr (statusOf latestVersion, None)"
    using assms by (simp add: fetchStatus_def buildNumberOf_def)
  have d: "displayVersion (statusOf latestVersion) None =
           attr_versionString latestVersion @ '' (undefined)''"
    using assms(4) by (auto simp: displayVersion_def statusOf_def template_def)
  have "fvalue (composeFields e prev (statusOf latestVersion) None ! 1) =
          Some (displayVersion (statusOf latestVersion) None)"
    by (auto simp: composeFields_def Let_def)
  then show ?thesis using f d by simp
qed

theorem missing_build_prints_undefined_witness:
  "fetchStatus example_env example_app = Inr (example_status, None) \<and>
   displayVersion example_status None = ''1.2.0 (undefined)'' \<and>
   fvalue (composeFields example_env Undefined example_status None ! 1) =
     Some ''1.2.0 (undefined)''"
proof -
  have 1: "data example_response = Some [example_item]"
    by (simp add: example_response_def)
  have 2: "filter (\<lambda>item. platform item = ''IOS'') [example_item] = example_item # []"
    by (simp add: example_item_def)
  have 3: "build_data_id example_item = None"
    by (simp add: example_item_def)
  have 4: "appVersionState example_item \<in> {''READY_FOR_DISTRIBUTION'',
           ''PENDING_DEVELOPER_RELEASE'', ''WAITING_FOR_REVIEW'', ''IN_REVIEW''}"
    by (simp add: example_item_def)
  have 5: "generateToken example_env = Inr ''token''"
    by (simp add: example_env_def)
  have 6: "axios_get example_env (''https://api.appstoreconnect.apple.com/v1/apps/'' @
             appId example_app @ ''/appStoreVersions?include=build'') (''Bearer '' @ ''token'') =
           Inr example_response"
    by (simp add: example_env_def)
  show ?thesis
    using missing_build_prints_undefined [OF 1 2 3 4 5 6, of Undefined]
    by (simp add: example_status_def example_item_def)
qed

end
